theory Spec2Isabelle
  imports Main
begin

section \<open>JavaScript values\<close>

text \<open>
  The forwarder module works on values typed \<open>any\<close>: the compiled CloudFormation
  resources, the \<open>provider.logs\<close> block and the forwarder ARN. They are modelled by one
  datatype of JavaScript values. An object is the list of its own enumerable string-keyed
  properties in \<open>Object.entries\<close> order; a lookup reads the first entry of a key.
  Numbers are only told apart from the other primitives, so an \<open>int\<close> stands for them.
\<close>

datatype jsval =
    JUndefined
  | JNull
  | JBool bool
  | JNum int
  | JStr string
  | JArr "jsval list"
  | JObj "(string \<times> jsval) list"

text \<open>
  The two exceptions of the module: the typed error of \<open>validateForwarderArn\<close> with its
  message, and the \<open>TypeError\<close> the runtime raises on a property access on
  \<open>undefined\<close> or \<open>null\<close> or on a call of a missing method. \<open>RequestRejected\<close> is
  the rejection of a remote request, whatever its reason.
\<close>

datatype error =
    DatadogForwarderNotFoundError string
  | TypeError
  | RequestRejected

definition bindE :: "error + 'a \<Rightarrow> ('a \<Rightarrow> error + 'b) \<Rightarrow> error + 'b" where
  "bindE m f = (case m of Inl e \<Rightarrow> Inl e | Inr x \<Rightarrow> f x)"

text \<open>\<open>a && b\<close> and \<open>a || b\<close> on booleans: the right operand is evaluated only when needed.\<close>

definition andE :: "error + bool \<Rightarrow> error + bool \<Rightarrow> error + bool" where
  "andE a b = bindE a (\<lambda>x. if x then b else Inr False)"

definition orE :: "error + bool \<Rightarrow> error + bool \<Rightarrow> error + bool" where
  "orE a b = bindE a (\<lambda>x. if x then Inr True else b)"

fun typeof :: "jsval \<Rightarrow> string" where
  "typeof JUndefined = ''undefined''"
| "typeof JNull = ''object''"
| "typeof (JBool b) = ''boolean''"
| "typeof (JNum n) = ''number''"
| "typeof (JStr s) = ''string''"
| "typeof (JArr xs) = ''object''"
| "typeof (JObj kvs) = ''object''"

text \<open>
  \<open>v.k\<close> for the property names the module reads (\<open>Type\<close>, \<open>Properties\<close>,
  \<open>LogGroupName\<close>, \<open>restApi\<close>, \<open>httpApi\<close>, \<open>websocket\<close>, \<open>accessLogging\<close>,
  \<open>executionLogging\<close>): none of them is inherited from a prototype, so a primitive or an
  array has none of them.
\<close>

fun get_prop :: "jsval \<Rightarrow> string \<Rightarrow> error + jsval" where
  "get_prop JUndefined k = Inl TypeError"
| "get_prop JNull k = Inl TypeError"
| "get_prop (JObj kvs) k = (case map_of kvs k of None \<Rightarrow> Inr JUndefined | Some v \<Rightarrow> Inr v)"
| "get_prop v k = Inr JUndefined"

text \<open>\<open>v?.k\<close>: \<open>undefined\<close> when \<open>v\<close> is \<open>undefined\<close> or \<open>null\<close>.\<close>

fun opt_prop :: "jsval \<Rightarrow> string \<Rightarrow> jsval" where
  "opt_prop (JObj kvs) k = (case map_of kvs k of None \<Rightarrow> JUndefined | Some v \<Rightarrow> v)"
| "opt_prop v k = JUndefined"

text \<open>
  \<open>v.hasOwnProperty(k)\<close>, for the same property names. The method is looked up on
  the value itself: an own property named \<open>hasOwnProperty\<close> shadows the one of
  \<open>Object.prototype\<close>, and since no value here is a function, calling it throws a
  \<open>TypeError\<close>.
\<close>

fun hasOwnProperty :: "jsval \<Rightarrow> string \<Rightarrow> error + bool" where
  "hasOwnProperty JUndefined k = Inl TypeError"
| "hasOwnProperty JNull k = Inl TypeError"
| "hasOwnProperty (JObj kvs) k =
     (if ''hasOwnProperty'' \<in> set (map fst kvs) then Inl TypeError
      else Inr (k \<in> set (map fst kvs)))"
| "hasOwnProperty v k = Inr False"

section \<open>Strings\<close>

text \<open>\<open>s.startsWith(p)\<close>.\<close>

fun startsWith :: "string \<Rightarrow> string \<Rightarrow> bool" where
  "startsWith s [] = True"
| "startsWith [] (p # ps) = False"
| "startsWith (c # s) (p # ps) = (c = p \<and> startsWith s ps)"

text \<open>\<open>v.startsWith(p)\<close> on a value typed \<open>any\<close>: only a string has the method.\<close>

fun js_startsWith :: "jsval \<Rightarrow> string \<Rightarrow> error + bool" where
  "js_startsWith (JStr s) p = Inr (startsWith s p)"
| "js_startsWith v p = Inl TypeError"

text \<open>\<open>s.replace(/c/g, t)\<close> for a one-character pattern.\<close>

definition replace_all :: "char \<Rightarrow> string \<Rightarrow> string \<Rightarrow> string" where
  "replace_all c t s = concat (map (\<lambda>x. if x = c then t else [x]) s)"

text \<open>
  \<open>toUpperCase\<close> on one character of a function name. The model covers names over
  the alphabet of Lambda function names (ASCII letters, digits, \<open>-\<close> and \<open>_\<close>; the
  source's comment excludes other characters): there only the letters \<open>a\<close> to \<open>z\<close>
  change. A \<open>char\<close> is a byte, so a letter beyond ASCII, which JavaScript would also
  upper-case, is outside the model and is left as it is.
\<close>

definition toUpperCase :: "char \<Rightarrow> char" where
  "toUpperCase c =
     (case map_of (zip ''abcdefghijklmnopqrstuvwxyz'' ''ABCDEFGHIJKLMNOPQRSTUVWXYZ'') c of
        None \<Rightarrow> c
      | Some u \<Rightarrow> u)"

section \<open>The naming transform\<close>

fun getLogGroupLogicalId :: "string \<Rightarrow> string" where
  "getLogGroupLogicalId [] = []"
| "getLogGroupLogicalId (c # rest) =
     (let uppercasedFirst = [toUpperCase c];
          upperCasedFunctionName = uppercasedFirst @ rest;
          normalizedFunctionName =
            replace_all (CHR ''_'') ''Underscore'' (replace_all (CHR ''-'') ''Dash'' upperCasedFunctionName)
      in normalizedFunctionName @ ''LogGroup'')"

section \<open>Collaborators\<close>

text \<open>
  A subscription filter as the log service reports it
  (\<open>DescribeSubscriptionFiltersResponse\<close>).
\<close>

record subscription_filter =
  creationTime :: int
  destinationArn :: string
  distribution :: string
  filterName :: string
  filterPattern :: string
  logGroupName :: string
  roleArn :: string

text \<open>
  The two remote requests the module sends through \<open>aws.request\<close>:
  \<open>("Lambda", "getFunction", {FunctionName})\<close> and
  \<open>("CloudWatchLogs", "describeSubscriptionFilters", {logGroupName})\<close>.
\<close>

datatype remote_call =
    GetFunction string
  | DescribeSubscriptionFilters string

text \<open>
  The AWS client. \<open>lambda_functions\<close> says for which names \<open>getFunction\<close> resolves;
  \<open>log_subscriptions\<close> is the answer of the log service for a log group, \<open>None\<close> when the
  request is rejected. \<open>getStage\<close> and \<open>getStackName\<close> are the values of
  \<open>aws.getStage()\<close> and \<open>aws.naming.getStackName()\<close>. \<open>requests\<close> records every
  remote request sent, in order.
\<close>

record Aws =
  lambda_functions :: "string \<Rightarrow> bool"
  log_subscriptions :: "string \<Rightarrow> subscription_filter list option"
  getStage :: string
  getStackName :: string
  requests :: "remote_call list"

definition request_getFunction :: "Aws \<Rightarrow> string \<Rightarrow> (error + unit) \<times> Aws" where
  "request_getFunction aws functionName =
     ((if lambda_functions aws functionName then Inr () else Inl RequestRejected),
      aws\<lparr>requests := requests aws @ [GetFunction functionName]\<rparr>)"

definition request_describeSubscriptionFilters ::
  "Aws \<Rightarrow> string \<Rightarrow> (error + subscription_filter list) \<times> Aws" where
  "request_describeSubscriptionFilters aws lgName =
     ((case log_subscriptions aws lgName of None \<Rightarrow> Inl RequestRejected | Some fs \<Rightarrow> Inr fs),
      aws\<lparr>requests := requests aws @ [DescribeSubscriptionFilters lgName]\<rparr>)"

text \<open>
  The resource graph \<open>compiledCloudFormationTemplate?.Resources\<close>: its entries in
  \<open>Object.entries\<close> order, or \<open>None\<close> when it is \<open>undefined\<close>.
\<close>

type_synonym resource_graph = "(string \<times> jsval) list"

text \<open>
  The service: \<open>getServiceName()\<close>, \<open>provider.logs\<close> (\<open>JUndefined\<close> when the block is
  absent) and the resource graph.
\<close>

record Service =
  getServiceName :: string
  provider_logs :: jsval
  Resources :: "resource_graph option"

record ForwarderConfigs =
  AddExtension :: bool
  IntegrationTesting :: "bool option"
  SubToAccessLogGroups :: bool
  SubToExecutionLogGroups :: bool

text \<open>
  \<open>FunctionInfo\<close> is declared in the layer module; the forwarder reads only \<open>name\<close>, and
  the other fields are the record's extension.
\<close>

record FunctionInfo =
  name :: string

text \<open>
  \<open>resources[k] = v\<close>: an existing key keeps its place, a new key goes last. (The keys
  written here end in \<open>LogGroup\<close> or \<open>Subscription\<close>, so none is an array index, which
  JavaScript would order first.)
\<close>

fun set_prop :: "resource_graph \<Rightarrow> string \<Rightarrow> jsval \<Rightarrow> resource_graph" where
  "set_prop [] k v = [(k, v)]"
| "set_prop ((k', v') # g) k v = (if k' = k then (k, v) # g else (k', v') # set_prop g k v)"

section \<open>Constants\<close>

definition logGroupKey :: string where
  "logGroupKey = ''AWS::Logs::LogGroup''"

definition logGroupSubscriptionKey :: string where
  "logGroupSubscriptionKey = ''AWS::Logs::SubscriptionFilter''"

definition maxAllowableLogGroupSubscriptions :: nat where
  "maxAllowableLogGroupSubscriptions = 2"

definition REST_EXECUTION_LOG_GROUP_KEY :: string where
  "REST_EXECUTION_LOG_GROUP_KEY = ''RestExecutionLogGroup''"

definition REST_EXECUTION_SUBSCRIPTION_KEY :: string where
  "REST_EXECUTION_SUBSCRIPTION_KEY = ''RestExecutionLogGroupSubscription''"

definition WEBSOCKETS_EXECUTION_LOG_GROUP_KEY :: string where
  "WEBSOCKETS_EXECUTION_LOG_GROUP_KEY = ''WebsocketsExecutionLogGroup''"

definition WEBSOCKETS_EXECUTION_SUBCRIPTION_KEY :: string where
  "WEBSOCKETS_EXECUTION_SUBCRIPTION_KEY = ''WebsocketsExecutionLogGroupSubscription''"

section \<open>The logging configuration\<close>

text \<open>
  \<open>if (obj.hasOwnProperty(k)) { if (rejects(obj.k)) { return false; } }\<close>: whether the
  inner \<open>return false\<close> is reached.
\<close>

definition own_prop_rejected :: "jsval \<Rightarrow> string \<Rightarrow> (jsval \<Rightarrow> error + bool) \<Rightarrow> error + bool" where
  "own_prop_rejected obj k rejects =
     bindE (hasOwnProperty obj k) (\<lambda>has. if has then bindE (get_prop obj k) rejects else Inr False)"

text \<open>
  The test on a sub-flag is written \<open>typeof x !== "boolean" && typeof x !== undefined\<close>:
  the second comparison is between a string and \<open>undefined\<close>.
\<close>

definition sub_flag_rejected :: "jsval \<Rightarrow> error + bool" where
  "sub_flag_rejected x = Inr (typeof x \<noteq> ''boolean'' \<and> JStr (typeof x) \<noteq> JUndefined)"

definition isSubLogsConfig :: "jsval \<Rightarrow> error + bool" where
  "isSubLogsConfig obj =
     (if typeof obj = ''boolean'' then Inr True
      else if typeof obj \<noteq> ''object'' then Inr False
      else bindE (own_prop_rejected obj ''accessLogging'' sub_flag_rejected) (\<lambda>r1.
           if r1 then Inr False
           else bindE (own_prop_rejected obj ''executionLogging'' sub_flag_rejected) (\<lambda>r2.
           if r2 then Inr False else Inr True)))"

definition not_isSubLogsConfig :: "jsval \<Rightarrow> error + bool" where
  "not_isSubLogsConfig x = bindE (isSubLogsConfig x) (\<lambda>ok. Inr (\<not> ok))"

definition isLogsConfig :: "jsval \<Rightarrow> error + bool" where
  "isLogsConfig obj =
     (if typeof obj \<noteq> ''object'' then Inr False
      else bindE (own_prop_rejected obj ''restApi'' not_isSubLogsConfig) (\<lambda>r1.
           if r1 then Inr False
           else bindE (own_prop_rejected obj ''httpApi'' not_isSubLogsConfig) (\<lambda>r2.
           if r2 then Inr False
           else bindE (own_prop_rejected obj ''websocket'' not_isSubLogsConfig) (\<lambda>r3.
           if r3 then Inr False else Inr True))))"

definition restAccessLoggingIsEnabled :: "jsval \<Rightarrow> bool" where
  "restAccessLoggingIsEnabled obj =
     (if opt_prop obj ''restApi'' = JBool False then False
      else opt_prop obj ''restApi'' = JBool True
           \<or> opt_prop (opt_prop obj ''restApi'') ''accessLogging'' = JBool True)"

definition restExecutionLoggingIsEnabled :: "jsval \<Rightarrow> bool" where
  "restExecutionLoggingIsEnabled obj =
     (if opt_prop obj ''restApi'' = JBool False then False
      else opt_prop obj ''restApi'' = JBool True
           \<or> opt_prop (opt_prop obj ''restApi'') ''executionLogging'' = JBool True)"

definition httpAccessLoggingIsEnabled :: "jsval \<Rightarrow> bool" where
  "httpAccessLoggingIsEnabled obj =
     (if opt_prop obj ''httpApi'' = JBool False then False
      else opt_prop obj ''httpApi'' = JBool True
           \<or> opt_prop (opt_prop obj ''httpApi'') ''accessLogging'' = JBool True)"

definition websocketAccessLoggingIsEnabled :: "jsval \<Rightarrow> bool" where
  "websocketAccessLoggingIsEnabled obj =
     (if opt_prop obj ''websocket'' = JBool False then False
      else opt_prop obj ''websocket'' = JBool True
           \<or> opt_prop (opt_prop obj ''websocket'') ''accessLogging'' = JBool True)"

definition websocketExecutionLoggingIsEnabled :: "jsval \<Rightarrow> bool" where
  "websocketExecutionLoggingIsEnabled obj =
     (if opt_prop obj ''websocket'' = JBool False then False
      else opt_prop obj ''websocket'' = JBool True
           \<or> opt_prop (opt_prop obj ''websocket'') ''executionLogging'' = JBool True)"

section \<open>The function existence validator\<close>

text \<open>
  \<open>validateForwarderArn\<close> is only called on a forwarder ARN that is a string; any
  rejection of the request becomes the typed error.
\<close>

definition validateForwarderArn :: "Aws \<Rightarrow> string \<Rightarrow> (error + unit) \<times> Aws" where
  "validateForwarderArn aws functionArn =
     (case request_getFunction aws functionArn of
        (Inl err, aws') \<Rightarrow>
          (Inl (DatadogForwarderNotFoundError
                  (''Could not perform GetFunction on '' @ functionArn @ ''.'')), aws')
      | (Inr u, aws') \<Rightarrow> (Inr (), aws'))"

section \<open>The subscription quota enforcer\<close>

definition describeSubscriptionFilters ::
  "Aws \<Rightarrow> string \<Rightarrow> (error + subscription_filter list) \<times> Aws" where
  "describeSubscriptionFilters aws lgName =
     (case request_describeSubscriptionFilters aws lgName of
        (Inl err, aws') \<Rightarrow> (Inr [], aws')
      | (Inr result, aws') \<Rightarrow> (Inr result, aws'))"

text \<open>The loop of \<open>canSubscribeLogGroup\<close> over the filters, from the flag's value so far.\<close>

fun foundDatadogSubscriptionFilter :: "string \<Rightarrow> bool \<Rightarrow> subscription_filter list \<Rightarrow> bool" where
  "foundDatadogSubscriptionFilter expectedSubName found [] = found"
| "foundDatadogSubscriptionFilter expectedSubName found (subscription # rest) =
     foundDatadogSubscriptionFilter expectedSubName
       (if startsWith (filterName subscription) expectedSubName then True else found) rest"

definition canSubscribeLogGroup :: "Aws \<Rightarrow> string \<Rightarrow> string \<Rightarrow> (error + bool) \<times> Aws" where
  "canSubscribeLogGroup aws lgName expectedSubName =
     (case describeSubscriptionFilters aws lgName of
        (Inl err, aws') \<Rightarrow> (Inl err, aws')
      | (Inr subscriptionFilters, aws') \<Rightarrow>
          (let numberOfActiveSubscriptionFilters = length subscriptionFilters;
               found = foundDatadogSubscriptionFilter expectedSubName False subscriptionFilters
           in (Inr (if \<not> found \<and> numberOfActiveSubscriptionFilters \<ge> maxAllowableLogGroupSubscriptions
                    then False else True), aws')))"

section \<open>The subscription decision\<close>

definition isLogGroup :: "jsval \<Rightarrow> error + bool" where
  "isLogGroup v = bindE (get_prop v ''Type'') (\<lambda>t. Inr (t = JStr logGroupKey))"

text \<open>\<open>resource.Properties.LogGroupName\<close>.\<close>

definition Properties_LogGroupName :: "jsval \<Rightarrow> error + jsval" where
  "Properties_LogGroupName resource =
     bindE (get_prop resource ''Properties'') (\<lambda>props. get_prop props ''LogGroupName'')"

definition validateRestApiSubscription :: "jsval \<Rightarrow> bool \<Rightarrow> jsval \<Rightarrow> error + bool" where
  "validateRestApiSubscription resource subscribe extendedProvider =
     andE (Inr (restAccessLoggingIsEnabled extendedProvider))
       (andE (bindE (Properties_LogGroupName resource) (\<lambda>n. js_startsWith n ''/aws/api-gateway/''))
             (Inr subscribe))"

definition validateHttpApiSubscription :: "jsval \<Rightarrow> bool \<Rightarrow> jsval \<Rightarrow> error + bool" where
  "validateHttpApiSubscription resource subscribe extendedProvider =
     andE (Inr (httpAccessLoggingIsEnabled extendedProvider))
       (andE (bindE (Properties_LogGroupName resource) (\<lambda>n. js_startsWith n ''/aws/http-api/''))
             (Inr subscribe))"

definition validateWebsocketSubscription :: "jsval \<Rightarrow> bool \<Rightarrow> jsval \<Rightarrow> error + bool" where
  "validateWebsocketSubscription resource subscribe extendedProvider =
     andE (Inr (websocketAccessLoggingIsEnabled extendedProvider))
       (andE (bindE (Properties_LogGroupName resource) (\<lambda>n. js_startsWith n ''/aws/websocket/''))
             (Inr subscribe))"

text \<open>The disjunction of the three API validations, as both tests of \<open>shouldSubscribe\<close> write it.\<close>

definition validateApiSubscriptions :: "jsval \<Rightarrow> bool \<Rightarrow> jsval \<Rightarrow> error + bool" where
  "validateApiSubscriptions resource subscribe extendedProvider =
     orE (validateRestApiSubscription resource subscribe extendedProvider)
       (orE (validateHttpApiSubscription resource subscribe extendedProvider)
            (validateWebsocketSubscription resource subscribe extendedProvider))"

definition isLambdaLogGroup :: "jsval \<Rightarrow> error + bool" where
  "isLambdaLogGroup resource =
     bindE (Properties_LogGroupName resource) (\<lambda>n. js_startsWith n ''/aws/lambda/'')"

definition shouldSubscribe ::
  "string \<Rightarrow> jsval \<Rightarrow> ForwarderConfigs \<Rightarrow> FunctionInfo list \<Rightarrow> Service \<Rightarrow> error + bool" where
  "shouldSubscribe resourceName resource forwarderConfigs handlers service =
     (let extendedProvider = provider_logs service in
      bindE (isLogGroup resource) (\<lambda>isLg.
      if \<not> isLg then Inr False
      else bindE (Properties_LogGroupName resource) (\<lambda>n.
      if typeof n \<noteq> ''string'' then Inr False
      else bindE (andE (Inr (AddExtension forwarderConfigs))
                   (bindE (validateApiSubscriptions resource
                             (SubToAccessLogGroups forwarderConfigs) extendedProvider)
                      (\<lambda>v. Inr (\<not> v)))) (\<lambda>extensionSkips.
      if extensionSkips then Inr False
      else bindE (bindE (orE (isLambdaLogGroup resource)
                           (validateApiSubscriptions resource
                              (SubToAccessLogGroups forwarderConfigs) extendedProvider))
                    (\<lambda>v. Inr (\<not> v))) (\<lambda>notEligible.
      if notEligible then Inr False
      else bindE (andE (isLambdaLogGroup resource)
                   (Inr (\<not> list_ex (\<lambda>h. getLogGroupLogicalId (name h) = resourceName) handlers)))
             (\<lambda>notOurs.
      if notOurs then Inr False else Inr True))))))"

definition subscribeToLogGroup :: "jsval \<Rightarrow> string \<Rightarrow> jsval" where
  "subscribeToLogGroup functionArn resourceName =
     JObj [(''Type'', JStr logGroupSubscriptionKey),
           (''Properties'',
            JObj [(''DestinationArn'', functionArn),
                  (''FilterPattern'', JStr ''''),
                  (''LogGroupName'', JObj [(''Ref'', JStr resourceName)])])]"

section \<open>The subscription decision engine\<close>

text \<open>
  The loop over \<open>Object.entries(resources)\<close>. The entries are read once, before the
  loop; the graph, the warnings and the client are the state: \<open>(aws, resources, errors)\<close>.
  An exception keeps the state reached. After \<open>shouldSubscribe\<close> has answered true the
  log group name is a string; the branch for another value is never taken.
\<close>

fun subscribe_entries ::
  "Service \<Rightarrow> jsval \<Rightarrow> ForwarderConfigs \<Rightarrow> FunctionInfo list \<Rightarrow> (string \<times> jsval) list \<Rightarrow>
   Aws \<times> resource_graph \<times> string list \<Rightarrow> (error + unit) \<times> Aws \<times> resource_graph \<times> string list" where
  "subscribe_entries service functionArn forwarderConfigs handlers [] st = (Inr (), st)"
| "subscribe_entries service functionArn forwarderConfigs handlers ((resourceName, resource) # entries)
     (aws, resources, errors) =
     (case shouldSubscribe resourceName resource forwarderConfigs handlers service of
        Inl err \<Rightarrow> (Inl err, aws, resources, errors)
      | Inr should \<Rightarrow>
          if \<not> should
          then subscribe_entries service functionArn forwarderConfigs handlers entries
                 (aws, resources, errors)
          else (case Properties_LogGroupName resource of
                  Inl err \<Rightarrow> (Inl err, aws, resources, errors)
                | Inr (JStr lgName) \<Rightarrow>
                    (let scopedSubName = resourceName @ ''Subscription'';
                         expectedSubName =
                           (if getStackName aws \<noteq> ''''
                            then getStackName aws @ ''-'' @ scopedSubName @ ''-''
                            else getServiceName service @ ''-'' @ getStage aws @ ''-''
                                 @ scopedSubName @ ''-'')
                     in case canSubscribeLogGroup aws lgName expectedSubName of
                          (Inl err, aws') \<Rightarrow> (Inl err, aws', resources, errors)
                        | (Inr canSub, aws') \<Rightarrow>
                            if \<not> canSub
                            then subscribe_entries service functionArn forwarderConfigs handlers entries
                                   (aws', resources,
                                    errors @ [''Could not subscribe Datadog Forwarder due to too many existing subscription filter(s) for ''
                                              @ lgName @ ''.''])
                            else subscribe_entries service functionArn forwarderConfigs handlers entries
                                   (aws',
                                    set_prop resources scopedSubName
                                      (subscribeToLogGroup functionArn resourceName),
                                    errors))
                | Inr other \<Rightarrow> (Inl TypeError, aws, resources, errors)))"

text \<open>
  The forwarder validation at the head of the engine: the warning it pushes, if any, and
  the client after it.
\<close>

definition validate_forwarder ::
  "Aws \<Rightarrow> jsval \<Rightarrow> ForwarderConfigs \<Rightarrow> (error + string list) \<times> Aws" where
  "validate_forwarder aws functionArn forwarderConfigs =
     (case functionArn of
        JStr arn \<Rightarrow>
          if IntegrationTesting forwarderConfigs = Some True
          then (Inr [''Skipping forwarder ARN validation because 'integrationTesting' is set to true''], aws)
          else (case validateForwarderArn aws arn of
                  (Inl err, aws') \<Rightarrow> (Inl err, aws')
                | (Inr u, aws') \<Rightarrow> (Inr [], aws'))
      | other \<Rightarrow>
          (Inr [''Skipping forwarder ARN validation because forwarder string defined with CloudFormation function.''], aws))"

text \<open>
  The result is what the call returns or throws, the client after the call, and the
  service with the graph the call has mutated.
\<close>

definition addCloudWatchForwarderSubscriptions ::
  "Service \<Rightarrow> Aws \<Rightarrow> jsval \<Rightarrow> ForwarderConfigs \<Rightarrow> FunctionInfo list \<Rightarrow>
   (error + string list) \<times> Aws \<times> Service" where
  "addCloudWatchForwarderSubscriptions service aws functionArn forwarderConfigs handlers =
     (case Resources service of
        None \<Rightarrow>
          (Inr [''No cloudformation stack available. Skipping subscribing Datadog forwarder.''],
           aws, service)
      | Some resources \<Rightarrow>
          (case validate_forwarder aws functionArn forwarderConfigs of
             (Inl err, aws') \<Rightarrow> (Inl err, aws', service)
           | (Inr errors, aws') \<Rightarrow>
               (case subscribe_entries service functionArn forwarderConfigs handlers resources
                       (aws', resources, errors) of
                  (Inl err, aws'', resources', errors') \<Rightarrow>
                    (Inl err, aws'', service\<lparr>Resources := Some resources'\<rparr>)
                | (Inr u, aws'', resources', errors') \<Rightarrow>
                    (Inr errors', aws'', service\<lparr>Resources := Some resources'\<rparr>))))"

section \<open>The execution log group synthesizer\<close>

definition createRestExecutionLogGroupName :: "Aws \<Rightarrow> jsval" where
  "createRestExecutionLogGroupName aws =
     JObj [(''Fn::Join'',
            JArr [JStr '''',
                  JArr [JStr ''API-Gateway-Execution-Logs_'',
                        JObj [(''Ref'', JStr ''ApiGatewayRestApi'')],
                        JStr ''/'', JStr (getStage aws)]])]"

definition createWebsocketExecutionLogGroupName :: "Aws \<Rightarrow> jsval" where
  "createWebsocketExecutionLogGroupName aws =
     JObj [(''Fn::Join'',
            JArr [JStr '''',
                  JArr [JStr ''/aws/apigateway/'',
                        JObj [(''Ref'', JStr ''WebsocketsApi'')],
                        JStr ''/'', JStr (getStage aws)]])]"

definition addExecutionLogGroup :: "jsval \<Rightarrow> jsval" where
  "addExecutionLogGroup lgName =
     JObj [(''Type'', JStr ''AWS::Logs::LogGroup''),
           (''Properties'', JObj [(''LogGroupName'', lgName)])]"

definition subscribeToExecutionLogGroup :: "jsval \<Rightarrow> string \<Rightarrow> jsval" where
  "subscribeToExecutionLogGroup functionArn executionLogGroupKey =
     JObj [(''Type'', JStr logGroupSubscriptionKey),
           (''Properties'',
            JObj [(''DestinationArn'', functionArn),
                  (''FilterPattern'', JStr ''''),
                  (''LogGroupName'', JObj [(''Ref'', JStr executionLogGroupKey)])])]"

text \<open>
  \<open>resources[k] = v\<close> on the service's graph: a \<open>TypeError\<close> when the graph is
  \<open>undefined\<close>.
\<close>

definition assign_resource :: "string \<Rightarrow> jsval \<Rightarrow> Service \<Rightarrow> (error + unit) \<times> Service" where
  "assign_resource k v service =
     (case Resources service of
        None \<Rightarrow> (Inl TypeError, service)
      | Some resources \<Rightarrow> (Inr (), service\<lparr>Resources := Some (set_prop resources k v)\<rparr>))"

text \<open>Statement sequencing on the service: the second statement runs unless the first threw.\<close>

definition then_do ::
  "(error + unit) \<times> Service \<Rightarrow> (Service \<Rightarrow> (error + unit) \<times> Service) \<Rightarrow> (error + unit) \<times> Service" where
  "then_do r f = (case r of (Inl err, service) \<Rightarrow> (Inl err, service) | (Inr u, service) \<Rightarrow> f service)"

definition add_rest_execution :: "Aws \<Rightarrow> jsval \<Rightarrow> Service \<Rightarrow> (error + unit) \<times> Service" where
  "add_rest_execution aws functionArn service =
     then_do
       (assign_resource REST_EXECUTION_LOG_GROUP_KEY
          (addExecutionLogGroup (createRestExecutionLogGroupName aws)) service)
       (assign_resource REST_EXECUTION_SUBSCRIPTION_KEY
          (subscribeToExecutionLogGroup functionArn REST_EXECUTION_LOG_GROUP_KEY))"

definition add_websocket_execution :: "Aws \<Rightarrow> jsval \<Rightarrow> Service \<Rightarrow> (error + unit) \<times> Service" where
  "add_websocket_execution aws functionArn service =
     then_do
       (assign_resource WEBSOCKETS_EXECUTION_LOG_GROUP_KEY
          (addExecutionLogGroup (createWebsocketExecutionLogGroupName aws)) service)
       (assign_resource WEBSOCKETS_EXECUTION_SUBCRIPTION_KEY
          (subscribeToExecutionLogGroup functionArn WEBSOCKETS_EXECUTION_LOG_GROUP_KEY))"

definition addExecutionLogGroupsAndSubscriptions ::
  "Service \<Rightarrow> Aws \<Rightarrow> jsval \<Rightarrow> (error + unit) \<times> Service" where
  "addExecutionLogGroupsAndSubscriptions service aws functionArn =
     (let extendedProvider = provider_logs service in
      case isLogsConfig extendedProvider of
        Inl err \<Rightarrow> (Inl err, service)
      | Inr ok \<Rightarrow>
          if \<not> ok then (Inr (), service)
          else then_do
                 (if restExecutionLoggingIsEnabled extendedProvider
                  then add_rest_execution aws functionArn service
                  else (Inr (), service))
                 (\<lambda>service'.
                    if websocketExecutionLoggingIsEnabled extendedProvider
                    then add_websocket_execution aws functionArn service'
                    else (Inr (), service')))"

section \<open>Malformed logging configurations\<close>






section \<open>Example inputs\<close>

text \<open>A client whose function service knows every function and whose log groups have no filter.\<close>

definition example_aws :: Aws where
  "example_aws =
     \<lparr>lambda_functions = (\<lambda>functionName. True),
      log_subscriptions = (\<lambda>lgName. Some []),
      getStage = ''dev'',
      getStackName = ''my-stack'',
      requests = []\<rparr>"

definition example_filter :: "string \<Rightarrow> subscription_filter" where
  "example_filter fname =
     \<lparr>creationTime = 0,
      destinationArn = ''arn:aws:lambda:us-east-1:000000000000:function:other'',
      distribution = ''ByLogStream'',
      filterName = fname,
      filterPattern = '''',
      logGroupName = ''/aws/lambda/foo'',
      roleArn = ''''\<rparr>"

definition foo_log_group :: jsval where
  "foo_log_group =
     JObj [(''Type'', JStr ''AWS::Logs::LogGroup''),
           (''Properties'', JObj [(''LogGroupName'', JStr ''/aws/lambda/foo'')])]"

definition api_log_group :: jsval where
  "api_log_group =
     JObj [(''Type'', JStr ''AWS::Logs::LogGroup''),
           (''Properties'', JObj [(''LogGroupName'', JStr ''/aws/api-gateway/my-service-dev'')])]"

definition example_service :: Service where
  "example_service =
     \<lparr>getServiceName = ''my-service'',
      provider_logs = JUndefined,
      Resources = Some [(''FooLogGroup'', foo_log_group)]\<rparr>"

definition example_configs :: ForwarderConfigs where
  "example_configs =
     \<lparr>AddExtension = False,
      IntegrationTesting = None,
      SubToAccessLogGroups = True,
      SubToExecutionLogGroups = False\<rparr>"

definition example_arn :: string where
  "example_arn = ''arn:aws:lambda:us-east-1:000000000000:function:datadog-forwarder''"

definition foo_subscription :: "jsval \<Rightarrow> jsval" where
  "foo_subscription functionArn =
     JObj [(''Type'', JStr ''AWS::Logs::SubscriptionFilter''),
           (''Properties'',
            JObj [(''DestinationArn'', functionArn),
                  (''FilterPattern'', JStr ''''),
                  (''LogGroupName'', JObj [(''Ref'', JStr ''FooLogGroup'')])])]"

text \<open>
  The graph the synthesizer leaves when the graph is there and the configuration is
  accepted: the REST pair is written when \<open>rest\<close> holds, then the WebSocket pair when
  \<open>ws\<close> holds. It is related to \<open>addExecutionLogGroupsAndSubscriptions\<close> by the lemma
  \<open>addExecution_Some\<close> below.
\<close>

definition synthesized_graph :: "bool \<Rightarrow> bool \<Rightarrow> Aws \<Rightarrow> jsval \<Rightarrow> resource_graph \<Rightarrow> resource_graph" where
  "synthesized_graph rest ws aws functionArn g =
     (let g1 = (if rest
                then set_prop (set_prop g REST_EXECUTION_LOG_GROUP_KEY
                                 (addExecutionLogGroup (createRestExecutionLogGroupName aws)))
                       REST_EXECUTION_SUBSCRIPTION_KEY
                       (subscribeToExecutionLogGroup functionArn REST_EXECUTION_LOG_GROUP_KEY)
                else g)
      in if ws
         then set_prop (set_prop g1 WEBSOCKETS_EXECUTION_LOG_GROUP_KEY
                          (addExecutionLogGroup (createWebsocketExecutionLogGroupName aws)))
                WEBSOCKETS_EXECUTION_SUBCRIPTION_KEY
                (subscribeToExecutionLogGroup functionArn WEBSOCKETS_EXECUTION_LOG_GROUP_KEY)
         else g1)"

section \<open>Facts about the quota enforcer\<close>

lemma startsWith_append: "startsWith s p \<longleftrightarrow> (\<exists>t. s = p @ t)"
  by (induction s p rule: startsWith.induct) auto

lemma foundDatadogSubscriptionFilter_iff:
  "foundDatadogSubscriptionFilter expectedSubName found fs
     = (found \<or> (\<exists>f \<in> set fs. startsWith (filterName f) expectedSubName))"
  by (induction fs arbitrary: found) auto

lemma describeSubscriptionFilters_cases:
  "describeSubscriptionFilters aws lgName =
     (Inr (case log_subscriptions aws lgName of None \<Rightarrow> [] | Some fs \<Rightarrow> fs),
      aws\<lparr>requests := requests aws @ [DescribeSubscriptionFilters lgName]\<rparr>)"
  by (simp add: describeSubscriptionFilters_def request_describeSubscriptionFilters_def
      split: option.splits)

lemma canSubscribeLogGroup_eq:
  "canSubscribeLogGroup aws lgName expectedSubName =
     (Inr ((\<exists>f \<in> set (case log_subscriptions aws lgName of None \<Rightarrow> [] | Some fs \<Rightarrow> fs).
              startsWith (filterName f) expectedSubName)
           \<or> length (case log_subscriptions aws lgName of None \<Rightarrow> [] | Some fs \<Rightarrow> fs) < 2),
      aws\<lparr>requests := requests aws @ [DescribeSubscriptionFilters lgName]\<rparr>)"
  by (auto simp add: canSubscribeLogGroup_def describeSubscriptionFilters_cases Let_def
      foundDatadogSubscriptionFilter_iff maxAllowableLogGroupSubscriptions_def)

text \<open>
  Claim C1. \<open>canSubscribeLogGroup\<close> always returns, and its answer is "allow" exactly
  when some filter that \<open>describeSubscriptionFilters\<close> reports has a \<open>filterName\<close>
  starting with the expected prefix, or fewer than two filters are reported. In
  particular two reported filters, neither matching, give "reject", and one reported
  filter that does not match gives "allow".
\<close>

theorem canSubscribeLogGroup_quota:
  "(\<exists>fs. fst (describeSubscriptionFilters aws lgName) = Inr fs \<and>
         fst (canSubscribeLogGroup aws lgName expectedSubName)
           = Inr ((\<exists>f \<in> set fs. startsWith (filterName f) expectedSubName) \<or> length fs < 2))
   \<and> (log_subscriptions aws lgName = Some [f1, f2]
        \<and> \<not> startsWith (filterName f1) expectedSubName
        \<and> \<not> startsWith (filterName f2) expectedSubName
      \<longrightarrow> fst (canSubscribeLogGroup aws lgName expectedSubName) = Inr False)
   \<and> (log_subscriptions aws lgName = Some [f1] \<and> \<not> startsWith (filterName f1) expectedSubName
      \<longrightarrow> fst (canSubscribeLogGroup aws lgName expectedSubName) = Inr True)"
  by (simp add: canSubscribeLogGroup_eq describeSubscriptionFilters_cases)

text \<open>
  Claim C1 at a log group with two foreign filters, and at one with a single foreign
  filter.
\<close>

theorem canSubscribeLogGroup_quota_witness:
  "fst (canSubscribeLogGroup
          (example_aws\<lparr>log_subscriptions :=
             (\<lambda>n. Some [example_filter ''other-a'', example_filter ''other-b''])\<rparr>)
          ''/aws/lambda/foo'' ''my-stack-FooLogGroupSubscription-'') = Inr False
   \<and> fst (canSubscribeLogGroup
          (example_aws\<lparr>log_subscriptions := (\<lambda>n. Some [example_filter ''other-a''])\<rparr>)
          ''/aws/lambda/foo'' ''my-stack-FooLogGroupSubscription-'') = Inr True"
  using canSubscribeLogGroup_quota
          [of "example_aws\<lparr>log_subscriptions :=
                 (\<lambda>n. Some [example_filter ''other-a'', example_filter ''other-b''])\<rparr>"
              "''/aws/lambda/foo''" "''my-stack-FooLogGroupSubscription-''"
              "example_filter ''other-a''" "example_filter ''other-b''"]
        canSubscribeLogGroup_quota
          [of "example_aws\<lparr>log_subscriptions := (\<lambda>n. Some [example_filter ''other-a''])\<rparr>"
              "''/aws/lambda/foo''" "''my-stack-FooLogGroupSubscription-''"
              "example_filter ''other-a''" "example_filter ''other-b''"]
  by (simp add: example_filter_def)

text \<open>
  Claim C6. When the \<open>describeSubscriptionFilters\<close> request is rejected,
  \<open>describeSubscriptionFilters\<close> returns the empty list (it returns, and throws
  nothing), and \<open>canSubscribeLogGroup\<close> on the same client answers "allow".
\<close>

theorem describeSubscriptionFilters_swallows_failure:
  "log_subscriptions aws lgName = None \<Longrightarrow>
     fst (describeSubscriptionFilters aws lgName) = Inr []
     \<and> fst (canSubscribeLogGroup aws lgName expectedSubName) = Inr True"
  by (simp add: canSubscribeLogGroup_eq describeSubscriptionFilters_cases)

text \<open>Claim C6 at a client whose log service rejects every request.\<close>

theorem describeSubscriptionFilters_swallows_failure_witness:
  "log_subscriptions (example_aws\<lparr>log_subscriptions := (\<lambda>n. None)\<rparr>) ''/aws/lambda/foo'' = None
   \<and> fst (describeSubscriptionFilters (example_aws\<lparr>log_subscriptions := (\<lambda>n. None)\<rparr>)
            ''/aws/lambda/foo'') = Inr []
   \<and> fst (canSubscribeLogGroup (example_aws\<lparr>log_subscriptions := (\<lambda>n. None)\<rparr>)
            ''/aws/lambda/foo'' ''my-stack-FooLogGroupSubscription-'') = Inr True"
  using describeSubscriptionFilters_swallows_failure
          [of "example_aws\<lparr>log_subscriptions := (\<lambda>n. None)\<rparr>" "''/aws/lambda/foo''"
              "''my-stack-FooLogGroupSubscription-''"]
  by simp

section \<open>Facts about the naming transform\<close>

text \<open>
  Claim C4 as written fails: the letter after the \<open>Dash\<close> token is not upper-cased, only
  the first character of the name is.
\<close>

theorem getLogGroupLogicalId_capital_counterexample:
  "getLogGroupLogicalId ''my-function_test'' \<noteq> ''MyDashFunctionUnderscoretestLogGroup''"
  by (simp add: replace_all_def toUpperCase_def)

text \<open>
  Claim C4, amended. \<open>getLogGroupLogicalId\<close> maps \<open>my-function_test\<close> to
  \<open>MyDashfunctionUnderscoretestLogGroup\<close> (a lower-case \<open>f\<close>), and the empty string
  to the empty string.
\<close>

theorem getLogGroupLogicalId_examples:
  "getLogGroupLogicalId ''my-function_test'' = ''MyDashfunctionUnderscoretestLogGroup''
   \<and> getLogGroupLogicalId '''' = ''''"
  by (simp add: replace_all_def toUpperCase_def)

section \<open>Facts about the decision engine\<close>

text \<open>
  The branch of the loop for a log group name that is not a string is never taken: a
  resource that \<open>shouldSubscribe\<close> accepts has a string for its name.
\<close>

lemma typeof_string: "typeof v = ''string'' \<longleftrightarrow> (\<exists>s. v = JStr s)"
  by (cases v) simp_all

lemma shouldSubscribe_string_name:
  assumes "shouldSubscribe resourceName resource forwarderConfigs handlers service = Inr True"
  shows "\<exists>s. Properties_LogGroupName resource = Inr (JStr s)"
proof (cases "Properties_LogGroupName resource")
  case (Inl e)
  with assms show ?thesis
    by (auto simp: shouldSubscribe_def Let_def bindE_def split: sum.splits if_splits)
next
  case (Inr n)
  with assms have "typeof n = ''string''"
    by (auto simp: shouldSubscribe_def Let_def bindE_def split: sum.splits if_splits)
  with Inr show ?thesis by (simp add: typeof_string)
qed

text \<open>
  Two runs that reach the other branches of the loop: with the extension active and
  access logs subscribed, the REST access log group is subscribed and the lambda log group
  is not; with two foreign filters on a log group, the engine warns and inserts nothing.
\<close>

lemma Properties_LogGroupName_api:
  "Properties_LogGroupName api_log_group = Inr (JStr ''/aws/api-gateway/my-service-dev'')"
  by (simp add: Properties_LogGroupName_def api_log_group_def bindE_def)

lemma extension_with_access_logs_subscribes_api:
  "addCloudWatchForwarderSubscriptions
       (example_service\<lparr>provider_logs := JObj [(''restApi'', JBool True)],
          Resources := Some [(''FooLogGroup'', foo_log_group),
                             (''ApiGatewayLogGroup'', api_log_group)]\<rparr>)
       example_aws (JStr example_arn)
       (example_configs\<lparr>AddExtension := True\<rparr>) [\<lparr>name = ''foo''\<rparr>]
     = (Inr [],
        example_aws\<lparr>requests :=
          [GetFunction example_arn,
           DescribeSubscriptionFilters ''/aws/api-gateway/my-service-dev'']\<rparr>,
        example_service\<lparr>provider_logs := JObj [(''restApi'', JBool True)],
          Resources := Some [(''FooLogGroup'', foo_log_group),
                             (''ApiGatewayLogGroup'', api_log_group),
                             (''ApiGatewayLogGroupSubscription'',
                              subscribeToLogGroup (JStr example_arn) ''ApiGatewayLogGroup'')]\<rparr>)"
  by (simp add: addCloudWatchForwarderSubscriptions_def validate_forwarder_def
      validateForwarderArn_def request_getFunction_def example_service_def example_aws_def
      example_configs_def shouldSubscribe_def isLogGroup_def logGroupKey_def
      Properties_LogGroupName_def foo_log_group_def api_log_group_def
      validateApiSubscriptions_def validateRestApiSubscription_def
      validateHttpApiSubscription_def validateWebsocketSubscription_def isLambdaLogGroup_def
      restAccessLoggingIsEnabled_def httpAccessLoggingIsEnabled_def
      websocketAccessLoggingIsEnabled_def bindE_def andE_def orE_def
      canSubscribeLogGroup_def describeSubscriptionFilters_def
      request_describeSubscriptionFilters_def maxAllowableLogGroupSubscriptions_def Let_def)

lemma quota_exceeded_warns:
  "addCloudWatchForwarderSubscriptions example_service
       (example_aws\<lparr>log_subscriptions :=
          (\<lambda>n. Some [example_filter ''other-a'', example_filter ''other-b''])\<rparr>)
       (JStr example_arn) example_configs [\<lparr>name = ''foo''\<rparr>]
     = (Inr [''Could not subscribe Datadog Forwarder due to too many existing subscription filter(s) for /aws/lambda/foo.''],
        example_aws\<lparr>log_subscriptions :=
             (\<lambda>n. Some [example_filter ''other-a'', example_filter ''other-b'']),
           requests :=
             [GetFunction example_arn, DescribeSubscriptionFilters ''/aws/lambda/foo'']\<rparr>,
        example_service)"
  by (simp add: addCloudWatchForwarderSubscriptions_def validate_forwarder_def
      validateForwarderArn_def request_getFunction_def example_service_def example_aws_def
      example_configs_def example_filter_def shouldSubscribe_def isLogGroup_def logGroupKey_def
      Properties_LogGroupName_def foo_log_group_def isLambdaLogGroup_def
      bindE_def andE_def orE_def replace_all_def toUpperCase_def
      canSubscribeLogGroup_def describeSubscriptionFilters_def
      request_describeSubscriptionFilters_def maxAllowableLogGroupSubscriptions_def Let_def)

lemma andE_False_right: "andE a (Inr False) \<noteq> Inr True"
  by (cases a) (auto simp: andE_def bindE_def)

lemma andE_not_True: "b \<noteq> Inr True \<Longrightarrow> andE a b \<noteq> Inr True"
  by (cases a) (auto simp: andE_def bindE_def)

lemma orE_not_True: "a \<noteq> Inr True \<Longrightarrow> b \<noteq> Inr True \<Longrightarrow> orE a b \<noteq> Inr True"
  by (cases a) (auto simp: orE_def bindE_def)

lemma validateApiSubscriptions_unsubscribed:
  "validateApiSubscriptions resource False extendedProvider \<noteq> Inr True"
  unfolding validateApiSubscriptions_def validateRestApiSubscription_def
    validateHttpApiSubscription_def validateWebsocketSubscription_def
  by (intro orE_not_True andE_not_True andE_False_right)

lemma shouldSubscribe_extension_only:
  assumes "AddExtension forwarderConfigs" and "\<not> SubToAccessLogGroups forwarderConfigs"
  shows "shouldSubscribe resourceName resource forwarderConfigs handlers service \<noteq> Inr True"
proof -
  let ?v = "validateApiSubscriptions resource False (provider_logs service)"
  have v: "?v \<noteq> Inr True" by (rule validateApiSubscriptions_unsubscribed)
  show ?thesis
  proof (cases ?v)
    case (Inl e)
    then show ?thesis using assms
      by (auto simp: shouldSubscribe_def Let_def bindE_def andE_def split: sum.splits)
  next
    case (Inr b)
    with v have "b = False" by auto
    with Inr show ?thesis using assms
      by (auto simp: shouldSubscribe_def Let_def bindE_def andE_def split: sum.splits)
  qed
qed

lemma subscribe_entries_none:
  assumes "\<And>resourceName resource.
             shouldSubscribe resourceName resource forwarderConfigs handlers service \<noteq> Inr True"
  shows "snd (subscribe_entries service functionArn forwarderConfigs handlers entries st) = st"
proof (induction entries)
  case Nil
  show ?case by simp
next
  case (Cons entry entries)
  obtain resourceName resource where entry: "entry = (resourceName, resource)" by (cases entry)
  obtain aws resources errors where st: "st = (aws, resources, errors)" by (cases st)
  show ?case
  proof (cases "shouldSubscribe resourceName resource forwarderConfigs handlers service")
    case (Inl e)
    then show ?thesis by (simp add: entry st)
  next
    case (Inr should)
    with assms[of resourceName resource] have "\<not> should" by auto
    with Inr Cons.IH show ?thesis by (simp add: entry st)
  qed
qed

text \<open>
  Claim C3. With \<open>AddExtension\<close> true and \<open>SubToAccessLogGroups\<close> false, a run of
  \<open>addCloudWatchForwarderSubscriptions\<close> leaves the service, and so its resource graph,
  as it was, whatever the graph, the handlers, the logging configuration and the other
  flags are: no \<open>SubscriptionFilter\<close> is created for any candidate.
\<close>

theorem extension_without_access_logs_subscribes_nothing:
  assumes "AddExtension forwarderConfigs" and "\<not> SubToAccessLogGroups forwarderConfigs"
  shows "snd (snd (addCloudWatchForwarderSubscriptions service aws functionArn forwarderConfigs handlers))
           = service"
proof (cases "Resources service")
  case None
  then show ?thesis by (simp add: addCloudWatchForwarderSubscriptions_def)
next
  case (Some resources)
  have same: "service\<lparr>Resources := Some resources\<rparr> = service"
    using Some by (cases service) simp
  obtain v aws' where vf: "validate_forwarder aws functionArn forwarderConfigs = (v, aws')"
    by (cases "validate_forwarder aws functionArn forwarderConfigs")
  show ?thesis
  proof (cases v)
    case (Inl e)
    with Some vf show ?thesis by (simp add: addCloudWatchForwarderSubscriptions_def)
  next
    case (Inr errors)
    obtain r st where run:
      "subscribe_entries service functionArn forwarderConfigs handlers resources (aws', resources, errors)
         = (r, st)"
      by (cases "subscribe_entries service functionArn forwarderConfigs handlers resources
                   (aws', resources, errors)")
    have "snd (subscribe_entries service functionArn forwarderConfigs handlers resources
                 (aws', resources, errors)) = (aws', resources, errors)"
      by (rule subscribe_entries_none) (rule shouldSubscribe_extension_only[OF assms])
    with run have "st = (aws', resources, errors)" by simp
    with Some vf Inr run same show ?thesis
      by (cases r) (simp_all add: addCloudWatchForwarderSubscriptions_def)
  qed
qed

text \<open>
  Claim C3 at a graph with a lambda log group of a tracked handler and a REST access log
  group, REST logging enabled: both would be candidates without the two flags.
\<close>

theorem extension_without_access_logs_subscribes_nothing_witness:
  "AddExtension (example_configs\<lparr>AddExtension := True, SubToAccessLogGroups := False\<rparr>)
   \<and> \<not> SubToAccessLogGroups (example_configs\<lparr>AddExtension := True, SubToAccessLogGroups := False\<rparr>)
   \<and> snd (snd (addCloudWatchForwarderSubscriptions
         (example_service\<lparr>provider_logs := JObj [(''restApi'', JBool True)],
            Resources := Some [(''FooLogGroup'', foo_log_group),
                               (''ApiGatewayLogGroup'', api_log_group)]\<rparr>)
         example_aws (JStr example_arn)
         (example_configs\<lparr>AddExtension := True, SubToAccessLogGroups := False\<rparr>)
         [\<lparr>name = ''foo''\<rparr>]))
     = example_service\<lparr>provider_logs := JObj [(''restApi'', JBool True)],
         Resources := Some [(''FooLogGroup'', foo_log_group),
                            (''ApiGatewayLogGroup'', api_log_group)]\<rparr>"
  using extension_without_access_logs_subscribes_nothing
          [of "example_configs\<lparr>AddExtension := True, SubToAccessLogGroups := False\<rparr>"
              "example_service\<lparr>provider_logs := JObj [(''restApi'', JBool True)],
                 Resources := Some [(''FooLogGroup'', foo_log_group),
                                    (''ApiGatewayLogGroup'', api_log_group)]\<rparr>"
              example_aws "JStr example_arn" "[\<lparr>name = ''foo''\<rparr>]"]
  by simp

lemma shouldSubscribe_ignores_execution_flag:
  "shouldSubscribe resourceName resource (forwarderConfigs\<lparr>SubToExecutionLogGroups := b\<rparr>) handlers service
     = shouldSubscribe resourceName resource forwarderConfigs handlers service"
  by (simp add: shouldSubscribe_def cong: if_cong)

lemma subscribe_entries_ignores_execution_flag:
  "subscribe_entries service functionArn (forwarderConfigs\<lparr>SubToExecutionLogGroups := b\<rparr>) handlers entries st
     = subscribe_entries service functionArn forwarderConfigs handlers entries st"
proof (induction entries arbitrary: st)
  case Nil
  show ?case by simp
next
  case (Cons entry entries)
  obtain resourceName resource where entry: "entry = (resourceName, resource)" by (cases entry)
  obtain aws resources errors where st: "st = (aws, resources, errors)" by (cases st)
  show ?case
    unfolding entry st subscribe_entries.simps shouldSubscribe_ignores_execution_flag Cons.IH
    by (rule refl)
qed

lemma validate_forwarder_ignores_execution_flag:
  "validate_forwarder aws functionArn (forwarderConfigs\<lparr>SubToExecutionLogGroups := b\<rparr>)
     = validate_forwarder aws functionArn forwarderConfigs"
  by (cases functionArn) (simp_all add: validate_forwarder_def)

lemma engine_ignores_execution_flag:
  "addCloudWatchForwarderSubscriptions service aws functionArn
       (forwarderConfigs\<lparr>SubToExecutionLogGroups := b\<rparr>) handlers
     = addCloudWatchForwarderSubscriptions service aws functionArn forwarderConfigs handlers"
  unfolding addCloudWatchForwarderSubscriptions_def validate_forwarder_ignores_execution_flag
    subscribe_entries_ignores_execution_flag
  by (rule refl)

text \<open>
  Claim C10. Two runs of \<open>addCloudWatchForwarderSubscriptions\<close> whose forwarder
  configurations agree on every flag but \<open>SubToExecutionLogGroups\<close>, on the same
  service, client, forwarder and handlers, give the same result: the same warnings or
  error, the same remote requests and the same graph. The engine never reads the flag.
\<close>

theorem execution_flag_not_read:
  fixes c1 c2 :: ForwarderConfigs
  assumes "AddExtension c1 = AddExtension c2"
    and "IntegrationTesting c1 = IntegrationTesting c2"
    and "SubToAccessLogGroups c1 = SubToAccessLogGroups c2"
  shows "addCloudWatchForwarderSubscriptions service aws functionArn c1 handlers
           = addCloudWatchForwarderSubscriptions service aws functionArn c2 handlers"
proof -
  have "c1 = c2\<lparr>SubToExecutionLogGroups := SubToExecutionLogGroups c1\<rparr>"
    using assms by (cases c1, cases c2) simp
  then show ?thesis
    using engine_ignores_execution_flag
            [where forwarderConfigs = c2 and b = "SubToExecutionLogGroups c1"]
    by simp
qed

text \<open>Claim C10 at the example service, with the flag false and with the flag true.\<close>

theorem execution_flag_not_read_witness:
  "AddExtension example_configs
     = AddExtension (example_configs\<lparr>SubToExecutionLogGroups := True\<rparr>)
   \<and> IntegrationTesting example_configs
     = IntegrationTesting (example_configs\<lparr>SubToExecutionLogGroups := True\<rparr>)
   \<and> SubToAccessLogGroups example_configs
     = SubToAccessLogGroups (example_configs\<lparr>SubToExecutionLogGroups := True\<rparr>)
   \<and> SubToExecutionLogGroups example_configs
     \<noteq> SubToExecutionLogGroups (example_configs\<lparr>SubToExecutionLogGroups := True\<rparr>)
   \<and> addCloudWatchForwarderSubscriptions example_service example_aws (JStr example_arn)
       example_configs [\<lparr>name = ''foo''\<rparr>]
     = addCloudWatchForwarderSubscriptions example_service example_aws (JStr example_arn)
         (example_configs\<lparr>SubToExecutionLogGroups := True\<rparr>) [\<lparr>name = ''foo''\<rparr>]"
  using execution_flag_not_read
          [of example_configs "example_configs\<lparr>SubToExecutionLogGroups := True\<rparr>"
              example_service example_aws "JStr example_arn" "[\<lparr>name = ''foo''\<rparr>]"]
  by (simp add: example_configs_def)

text \<open>
  Claim C5 as written fails when the resource graph is \<open>undefined\<close>: the guard at the
  head of the engine returns its warning before the forwarder is validated, so no
  existence query is sent and nothing is raised, although the query would fail.
\<close>

theorem forwarder_not_found_counterexample:
  "\<not> lambda_functions (example_aws\<lparr>lambda_functions := (\<lambda>functionName. False)\<rparr>) example_arn
   \<and> IntegrationTesting example_configs \<noteq> Some True
   \<and> addCloudWatchForwarderSubscriptions (example_service\<lparr>Resources := None\<rparr>)
       (example_aws\<lparr>lambda_functions := (\<lambda>functionName. False)\<rparr>)
       (JStr example_arn) example_configs [\<lparr>name = ''foo''\<rparr>]
     = (Inr [''No cloudformation stack available. Skipping subscribing Datadog forwarder.''],
        example_aws\<lparr>lambda_functions := (\<lambda>functionName. False)\<rparr>,
        example_service\<lparr>Resources := None\<rparr>)"
  by (simp add: addCloudWatchForwarderSubscriptions_def example_service_def example_configs_def)

text \<open>
  Claim C5, amended. When the resource graph is there, the forwarder destination is a
  literal string, integration testing is not active and the existence query fails,
  \<open>addCloudWatchForwarderSubscriptions\<close> throws \<open>DatadogForwarderNotFoundError\<close>; the
  only remote request of the run is that query, so no candidate has been processed, and
  the service with its graph is unchanged.
\<close>

theorem forwarder_not_found_is_fatal:
  assumes "Resources service = Some resources"
    and "IntegrationTesting forwarderConfigs \<noteq> Some True"
    and "\<not> lambda_functions aws arn"
  shows "addCloudWatchForwarderSubscriptions service aws (JStr arn) forwarderConfigs handlers
           = (Inl (DatadogForwarderNotFoundError (''Could not perform GetFunction on '' @ arn @ ''.'')),
              aws\<lparr>requests := requests aws @ [GetFunction arn]\<rparr>,
              service)"
  using assms
  by (simp add: addCloudWatchForwarderSubscriptions_def validate_forwarder_def
      validateForwarderArn_def request_getFunction_def)

text \<open>Claim C5, amended, at the example service with a function service that knows no function.\<close>

theorem forwarder_not_found_is_fatal_witness:
  "Resources example_service = Some [(''FooLogGroup'', foo_log_group)]
   \<and> IntegrationTesting example_configs \<noteq> Some True
   \<and> \<not> lambda_functions (example_aws\<lparr>lambda_functions := (\<lambda>functionName. False)\<rparr>) example_arn
   \<and> addCloudWatchForwarderSubscriptions example_service
       (example_aws\<lparr>lambda_functions := (\<lambda>functionName. False)\<rparr>)
       (JStr example_arn) example_configs [\<lparr>name = ''foo''\<rparr>]
     = (Inl (DatadogForwarderNotFoundError
               (''Could not perform GetFunction on '' @ example_arn @ ''.'')),
        example_aws\<lparr>lambda_functions := (\<lambda>functionName. False),
                      requests := [GetFunction example_arn]\<rparr>,
        example_service)"
  using forwarder_not_found_is_fatal
          [of example_service "[(''FooLogGroup'', foo_log_group)]" example_configs
              "example_aws\<lparr>lambda_functions := (\<lambda>functionName. False)\<rparr>" example_arn
              "[\<lparr>name = ''foo''\<rparr>]"]
  by (simp add: example_service_def example_configs_def example_aws_def)

text \<open>
  Claim C9 as written fails on a graph that is there and has no entries: the guard tests
  for \<open>undefined\<close> only, so the engine records no warning and sends the existence query.
\<close>

theorem empty_graph_counterexample:
  "addCloudWatchForwarderSubscriptions (example_service\<lparr>Resources := Some []\<rparr>) example_aws
       (JStr example_arn) example_configs []
     = (Inr [], example_aws\<lparr>requests := [GetFunction example_arn]\<rparr>,
        example_service\<lparr>Resources := Some []\<rparr>)"
  by (simp add: addCloudWatchForwarderSubscriptions_def validate_forwarder_def
      validateForwarderArn_def request_getFunction_def example_service_def example_aws_def
      example_configs_def)

text \<open>
  Claim C9, amended. Whenever the resource graph is \<open>undefined\<close>,
  \<open>addCloudWatchForwarderSubscriptions\<close> returns exactly one warning, the one that no
  stack is available, sends no remote request and leaves the service as it was.
\<close>

theorem no_resource_graph_skips_phase:
  assumes "Resources service = None"
  shows "addCloudWatchForwarderSubscriptions service aws functionArn forwarderConfigs handlers
           = (Inr [''No cloudformation stack available. Skipping subscribing Datadog forwarder.''],
              aws, service)"
  using assms by (simp add: addCloudWatchForwarderSubscriptions_def)

text \<open>Claim C9, amended, at the example service without its graph.\<close>

theorem no_resource_graph_skips_phase_witness:
  "Resources (example_service\<lparr>Resources := None\<rparr>) = None
   \<and> addCloudWatchForwarderSubscriptions (example_service\<lparr>Resources := None\<rparr>) example_aws
       (JStr example_arn) example_configs [\<lparr>name = ''foo''\<rparr>]
     = (Inr [''No cloudformation stack available. Skipping subscribing Datadog forwarder.''],
        example_aws, example_service\<lparr>Resources := None\<rparr>)"
  using no_resource_graph_skips_phase
          [of "example_service\<lparr>Resources := None\<rparr>" example_aws "JStr example_arn"
              example_configs "[\<lparr>name = ''foo''\<rparr>]"]
  by simp

lemma shouldSubscribe_foo:
  "shouldSubscribe ''FooLogGroup'' foo_log_group
     \<lparr>AddExtension = False, IntegrationTesting = it, SubToAccessLogGroups = True,
      SubToExecutionLogGroups = False\<rparr> [\<lparr>name = ''foo''\<rparr>] service = Inr True"
  by (simp add: shouldSubscribe_def foo_log_group_def isLogGroup_def logGroupKey_def bindE_def
      andE_def orE_def Properties_LogGroupName_def isLambdaLogGroup_def
      replace_all_def toUpperCase_def)

lemma Properties_LogGroupName_foo:
  "Properties_LogGroupName foo_log_group = Inr (JStr ''/aws/lambda/foo'')"
  by (simp add: Properties_LogGroupName_def foo_log_group_def bindE_def)

text \<open>
  Claim C2 as written fails when the forwarder destination is a CloudFormation
  expression: the scenario fixes the graph, the handlers, the flags and the log service,
  and the subscription is inserted, but the run returns the warning that the validation
  was skipped.
\<close>

theorem end_to_end_intrinsic_counterexample:
  "addCloudWatchForwarderSubscriptions example_service example_aws
       (JObj [(''Fn::Sub'', JStr ''arn:aws:lambda:us-east-1:000000000000:function:fwd'')])
       example_configs [\<lparr>name = ''foo''\<rparr>]
     = (Inr [''Skipping forwarder ARN validation because forwarder string defined with CloudFormation function.''],
        example_aws\<lparr>requests := [DescribeSubscriptionFilters ''/aws/lambda/foo'']\<rparr>,
        example_service\<lparr>Resources := Some
          [(''FooLogGroup'', foo_log_group),
           (''FooLogGroupSubscription'',
            foo_subscription
              (JObj [(''Fn::Sub'', JStr ''arn:aws:lambda:us-east-1:000000000000:function:fwd'')]))]\<rparr>)"
  by (simp add: addCloudWatchForwarderSubscriptions_def validate_forwarder_def
      example_service_def example_configs_def example_aws_def
      shouldSubscribe_foo Properties_LogGroupName_foo canSubscribeLogGroup_eq
      subscribeToLogGroup_def foo_subscription_def logGroupSubscriptionKey_def Let_def)

text \<open>
  Claim C2, amended. For the graph with the single resource \<open>FooLogGroup\<close>, a log group
  named \<open>/aws/lambda/foo\<close>, the handlers \<open>[{name: "foo"}]\<close>, the extension inactive,
  access logs subscribed, execution logs not, a log service reporting no filter for the
  log group, and a forwarder destination that is a literal string whose existence query
  succeeds, with integration testing not active: the run returns no warning and the graph
  gains exactly the entry \<open>FooLogGroupSubscription\<close>, a \<open>SubscriptionFilter\<close> with the
  forwarder as destination, the empty filter pattern and the log group referenced as
  \<open>{Ref: "FooLogGroup"}\<close>. The service name, the stage, the stack name and the logging
  configuration do not matter.
\<close>

theorem end_to_end_scenario:
  assumes "log_subscriptions aws ''/aws/lambda/foo'' = Some []"
    and "lambda_functions aws arn"
    and "it \<noteq> Some True"
  shows "addCloudWatchForwarderSubscriptions
           \<lparr>getServiceName = serviceName, provider_logs = logs,
            Resources = Some [(''FooLogGroup'', foo_log_group)]\<rparr>
           aws (JStr arn)
           \<lparr>AddExtension = False, IntegrationTesting = it, SubToAccessLogGroups = True,
            SubToExecutionLogGroups = False\<rparr>
           [\<lparr>name = ''foo''\<rparr>]
         = (Inr [],
            aws\<lparr>requests := requests aws
                    @ [GetFunction arn, DescribeSubscriptionFilters ''/aws/lambda/foo'']\<rparr>,
            \<lparr>getServiceName = serviceName, provider_logs = logs,
             Resources = Some [(''FooLogGroup'', foo_log_group),
                               (''FooLogGroupSubscription'', foo_subscription (JStr arn))]\<rparr>)"
  using assms
  by (simp add: addCloudWatchForwarderSubscriptions_def validate_forwarder_def
      validateForwarderArn_def request_getFunction_def shouldSubscribe_foo
      Properties_LogGroupName_foo canSubscribeLogGroup_eq subscribeToLogGroup_def
      foo_subscription_def logGroupSubscriptionKey_def Let_def)

text \<open>Claim C2, amended, at the example client and forwarder.\<close>

theorem end_to_end_scenario_witness:
  "log_subscriptions example_aws ''/aws/lambda/foo'' = Some []
   \<and> lambda_functions example_aws example_arn
   \<and> addCloudWatchForwarderSubscriptions example_service example_aws (JStr example_arn)
       example_configs [\<lparr>name = ''foo''\<rparr>]
     = (Inr [],
        example_aws\<lparr>requests :=
          [GetFunction example_arn, DescribeSubscriptionFilters ''/aws/lambda/foo'']\<rparr>,
        example_service\<lparr>Resources := Some
          [(''FooLogGroup'', foo_log_group),
           (''FooLogGroupSubscription'', foo_subscription (JStr example_arn))]\<rparr>)"
  using end_to_end_scenario [of example_aws example_arn None "''my-service''" JUndefined]
  by (simp add: example_aws_def example_service_def example_configs_def)

section \<open>Facts about the execution log group synthesizer\<close>

lemma map_of_set_prop: "map_of (set_prop g k v) = (map_of g)(k \<mapsto> v)"
  by (induction g) (auto simp: fun_eq_iff)

lemma set_prop_same: "map_of g k = Some v \<Longrightarrow> set_prop g k v = g"
  by (induction g) (auto split: if_splits)

lemma keys_set_prop: "fst ` set (set_prop g k v) = insert k (fst ` set g)"
  by (simp add: dom_map_of_conv_image_fst[symmetric] map_of_set_prop)

lemma distinct_set_prop: "distinct (map fst g) \<Longrightarrow> distinct (map fst (set_prop g k v))"
  by (induction g) (auto simp: keys_set_prop)

lemmas execution_keys =
  REST_EXECUTION_LOG_GROUP_KEY_def REST_EXECUTION_SUBSCRIPTION_KEY_def
  WEBSOCKETS_EXECUTION_LOG_GROUP_KEY_def WEBSOCKETS_EXECUTION_SUBCRIPTION_KEY_def

lemma add_rest_execution_Some:
  "Resources service = Some g \<Longrightarrow>
   add_rest_execution aws functionArn service =
     (Inr (), service\<lparr>Resources := Some
        (set_prop (set_prop g REST_EXECUTION_LOG_GROUP_KEY
                     (addExecutionLogGroup (createRestExecutionLogGroupName aws)))
           REST_EXECUTION_SUBSCRIPTION_KEY
           (subscribeToExecutionLogGroup functionArn REST_EXECUTION_LOG_GROUP_KEY))\<rparr>)"
  by (simp add: add_rest_execution_def then_do_def assign_resource_def)

lemma add_websocket_execution_Some:
  "Resources service = Some g \<Longrightarrow>
   add_websocket_execution aws functionArn service =
     (Inr (), service\<lparr>Resources := Some
        (set_prop (set_prop g WEBSOCKETS_EXECUTION_LOG_GROUP_KEY
                     (addExecutionLogGroup (createWebsocketExecutionLogGroupName aws)))
           WEBSOCKETS_EXECUTION_SUBCRIPTION_KEY
           (subscribeToExecutionLogGroup functionArn WEBSOCKETS_EXECUTION_LOG_GROUP_KEY))\<rparr>)"
  by (simp add: add_websocket_execution_def then_do_def assign_resource_def)

lemma add_rest_execution_None:
  "Resources service = None \<Longrightarrow>
   add_rest_execution aws functionArn service = (Inl TypeError, service)"
  by (simp add: add_rest_execution_def then_do_def assign_resource_def)

lemma add_websocket_execution_None:
  "Resources service = None \<Longrightarrow>
   add_websocket_execution aws functionArn service = (Inl TypeError, service)"
  by (simp add: add_websocket_execution_def then_do_def assign_resource_def)

lemma addExecution_Some:
  assumes "Resources service = Some g" and "isLogsConfig (provider_logs service) = Inr True"
  shows "addExecutionLogGroupsAndSubscriptions service aws functionArn =
           (Inr (), service\<lparr>Resources := Some
              (synthesized_graph (restExecutionLoggingIsEnabled (provider_logs service))
                 (websocketExecutionLoggingIsEnabled (provider_logs service)) aws functionArn g)\<rparr>)"
proof -
  have same: "service\<lparr>Resources := Some g\<rparr> = service"
    using assms(1) by (cases service) simp
  show ?thesis
    using assms same
    by (simp add: addExecutionLogGroupsAndSubscriptions_def Let_def then_do_def
        synthesized_graph_def add_rest_execution_Some add_websocket_execution_Some)
qed

lemma addExecution_None:
  assumes "Resources service = None"
  shows "snd (addExecutionLogGroupsAndSubscriptions service aws functionArn) = service"
  using assms
  by (auto simp: addExecutionLogGroupsAndSubscriptions_def Let_def then_do_def
      add_rest_execution_None add_websocket_execution_None split: sum.splits)

lemma addExecution_rejected:
  assumes "isLogsConfig (provider_logs service) \<noteq> Inr True"
  shows "snd (addExecutionLogGroupsAndSubscriptions service aws functionArn) = service"
  using assms
  by (auto simp: addExecutionLogGroupsAndSubscriptions_def Let_def split: sum.splits)

lemma synthesized_graph_twice:
  "synthesized_graph rest ws aws functionArn (synthesized_graph rest ws aws functionArn g)
     = synthesized_graph rest ws aws functionArn g"
  by (simp add: synthesized_graph_def Let_def set_prop_same map_of_set_prop execution_keys)

lemma map_of_synthesized_rest:
  "map_of (synthesized_graph True ws aws functionArn g) REST_EXECUTION_LOG_GROUP_KEY
     = Some (addExecutionLogGroup (createRestExecutionLogGroupName aws))
   \<and> map_of (synthesized_graph True ws aws functionArn g) REST_EXECUTION_SUBSCRIPTION_KEY
     = Some (subscribeToExecutionLogGroup functionArn REST_EXECUTION_LOG_GROUP_KEY)"
  by (simp add: synthesized_graph_def Let_def map_of_set_prop execution_keys)

lemma map_of_synthesized_websocket:
  "map_of (synthesized_graph rest True aws functionArn g) WEBSOCKETS_EXECUTION_LOG_GROUP_KEY
     = Some (addExecutionLogGroup (createWebsocketExecutionLogGroupName aws))
   \<and> map_of (synthesized_graph rest True aws functionArn g) WEBSOCKETS_EXECUTION_SUBCRIPTION_KEY
     = Some (subscribeToExecutionLogGroup functionArn WEBSOCKETS_EXECUTION_LOG_GROUP_KEY)"
  by (simp add: synthesized_graph_def Let_def map_of_set_prop execution_keys)

lemma distinct_synthesized:
  "distinct (map fst g) \<Longrightarrow> distinct (map fst (synthesized_graph rest ws aws functionArn g))"
  by (simp add: synthesized_graph_def Let_def distinct_set_prop)

text \<open>
  Claim C7. Running \<open>addExecutionLogGroupsAndSubscriptions\<close> again on the service the
  first run has left, with the same client and forwarder, gives the result of the first
  run: the same outcome and the same graph. When the graph is there and the
  configuration is accepted, the run returns, and in the graph it leaves the REST pair
  (when REST execution logging is enabled) and the WebSocket pair (when WebSocket
  execution logging is enabled) stand under their four fixed keys with a content that
  depends on the stage and the forwarder only, whatever was there before; a graph with
  distinct keys keeps distinct keys.
\<close>

theorem synthesizer_idempotent:
  "addExecutionLogGroupsAndSubscriptions
       (snd (addExecutionLogGroupsAndSubscriptions service aws functionArn)) aws functionArn
     = addExecutionLogGroupsAndSubscriptions service aws functionArn
   \<and> (Resources service = Some g \<and> isLogsConfig (provider_logs service) = Inr True \<longrightarrow>
        (\<exists>g'. addExecutionLogGroupsAndSubscriptions service aws functionArn
                 = (Inr (), service\<lparr>Resources := Some g'\<rparr>)
           \<and> (restExecutionLoggingIsEnabled (provider_logs service) \<longrightarrow>
                 map_of g' REST_EXECUTION_LOG_GROUP_KEY
                   = Some (addExecutionLogGroup (createRestExecutionLogGroupName aws))
               \<and> map_of g' REST_EXECUTION_SUBSCRIPTION_KEY
                   = Some (subscribeToExecutionLogGroup functionArn REST_EXECUTION_LOG_GROUP_KEY))
           \<and> (websocketExecutionLoggingIsEnabled (provider_logs service) \<longrightarrow>
                 map_of g' WEBSOCKETS_EXECUTION_LOG_GROUP_KEY
                   = Some (addExecutionLogGroup (createWebsocketExecutionLogGroupName aws))
               \<and> map_of g' WEBSOCKETS_EXECUTION_SUBCRIPTION_KEY
                   = Some (subscribeToExecutionLogGroup functionArn
                             WEBSOCKETS_EXECUTION_LOG_GROUP_KEY))
           \<and> (distinct (map fst g) \<longrightarrow> distinct (map fst g'))))"
proof (intro conjI impI)
  show "addExecutionLogGroupsAndSubscriptions
          (snd (addExecutionLogGroupsAndSubscriptions service aws functionArn)) aws functionArn
        = addExecutionLogGroupsAndSubscriptions service aws functionArn"
  proof (cases "isLogsConfig (provider_logs service) = Inr True")
    case False
    then show ?thesis by (simp add: addExecution_rejected)
  next
    case valid: True
    show ?thesis
    proof (cases "Resources service")
      case None
      then show ?thesis by (simp add: addExecution_None)
    next
      case (Some g0)
      show ?thesis
        unfolding addExecution_Some[OF Some valid]
        by (simp add: addExecution_Some valid synthesized_graph_twice)
    qed
  qed
next
  assume a: "Resources service = Some g \<and> isLogsConfig (provider_logs service) = Inr True"
  let ?g' = "synthesized_graph (restExecutionLoggingIsEnabled (provider_logs service))
               (websocketExecutionLoggingIsEnabled (provider_logs service)) aws functionArn g"
  have run: "addExecutionLogGroupsAndSubscriptions service aws functionArn
               = (Inr (), service\<lparr>Resources := Some ?g'\<rparr>)"
    using a by (simp add: addExecution_Some)
  have rest: "restExecutionLoggingIsEnabled (provider_logs service) \<longrightarrow>
                 map_of ?g' REST_EXECUTION_LOG_GROUP_KEY
                   = Some (addExecutionLogGroup (createRestExecutionLogGroupName aws))
               \<and> map_of ?g' REST_EXECUTION_SUBSCRIPTION_KEY
                   = Some (subscribeToExecutionLogGroup functionArn REST_EXECUTION_LOG_GROUP_KEY)"
    using map_of_synthesized_rest by simp
  have ws: "websocketExecutionLoggingIsEnabled (provider_logs service) \<longrightarrow>
                 map_of ?g' WEBSOCKETS_EXECUTION_LOG_GROUP_KEY
                   = Some (addExecutionLogGroup (createWebsocketExecutionLogGroupName aws))
               \<and> map_of ?g' WEBSOCKETS_EXECUTION_SUBCRIPTION_KEY
                   = Some (subscribeToExecutionLogGroup functionArn
                             WEBSOCKETS_EXECUTION_LOG_GROUP_KEY)"
    using map_of_synthesized_websocket by simp
  have d: "distinct (map fst g) \<longrightarrow> distinct (map fst ?g')"
    by (simp add: distinct_synthesized)
  from run rest ws d
  show "\<exists>g'. addExecutionLogGroupsAndSubscriptions service aws functionArn
                 = (Inr (), service\<lparr>Resources := Some g'\<rparr>)
           \<and> (restExecutionLoggingIsEnabled (provider_logs service) \<longrightarrow>
                 map_of g' REST_EXECUTION_LOG_GROUP_KEY
                   = Some (addExecutionLogGroup (createRestExecutionLogGroupName aws))
               \<and> map_of g' REST_EXECUTION_SUBSCRIPTION_KEY
                   = Some (subscribeToExecutionLogGroup functionArn REST_EXECUTION_LOG_GROUP_KEY))
           \<and> (websocketExecutionLoggingIsEnabled (provider_logs service) \<longrightarrow>
                 map_of g' WEBSOCKETS_EXECUTION_LOG_GROUP_KEY
                   = Some (addExecutionLogGroup (createWebsocketExecutionLogGroupName aws))
               \<and> map_of g' WEBSOCKETS_EXECUTION_SUBCRIPTION_KEY
                   = Some (subscribeToExecutionLogGroup functionArn
                             WEBSOCKETS_EXECUTION_LOG_GROUP_KEY))
           \<and> (distinct (map fst g) \<longrightarrow> distinct (map fst g'))"
    by blast
qed

text \<open>
  Claim C7 at the example service with REST logging enabled as a whole and WebSocket
  execution logging enabled by its sub-flag: the configuration is accepted, both
  execution flags resolve to true, and the second run changes nothing.
\<close>

theorem synthesizer_idempotent_witness:
  "Resources (example_service\<lparr>provider_logs :=
       JObj [(''restApi'', JBool True),
             (''websocket'', JObj [(''executionLogging'', JBool True)])]\<rparr>)
     = Some [(''FooLogGroup'', foo_log_group)]
   \<and> isLogsConfig (provider_logs (example_service\<lparr>provider_logs :=
       JObj [(''restApi'', JBool True),
             (''websocket'', JObj [(''executionLogging'', JBool True)])]\<rparr>)) = Inr True
   \<and> restExecutionLoggingIsEnabled (JObj [(''restApi'', JBool True),
         (''websocket'', JObj [(''executionLogging'', JBool True)])])
   \<and> websocketExecutionLoggingIsEnabled (JObj [(''restApi'', JBool True),
         (''websocket'', JObj [(''executionLogging'', JBool True)])])
   \<and> distinct (map fst [(''FooLogGroup'', foo_log_group)])
   \<and> addExecutionLogGroupsAndSubscriptions
       (snd (addExecutionLogGroupsAndSubscriptions
               (example_service\<lparr>provider_logs :=
                  JObj [(''restApi'', JBool True),
                        (''websocket'', JObj [(''executionLogging'', JBool True)])]\<rparr>)
               example_aws (JStr example_arn)))
       example_aws (JStr example_arn)
     = addExecutionLogGroupsAndSubscriptions
         (example_service\<lparr>provider_logs :=
            JObj [(''restApi'', JBool True),
                  (''websocket'', JObj [(''executionLogging'', JBool True)])]\<rparr>)
         example_aws (JStr example_arn)"
  using synthesizer_idempotent
          [of "example_service\<lparr>provider_logs :=
                 JObj [(''restApi'', JBool True),
                       (''websocket'', JObj [(''executionLogging'', JBool True)])]\<rparr>"
              example_aws "JStr example_arn" "[(''FooLogGroup'', foo_log_group)]"]
  by (simp add: example_service_def isLogsConfig_def own_prop_rejected_def
      not_isSubLogsConfig_def isSubLogsConfig_def sub_flag_rejected_def bindE_def
      restExecutionLoggingIsEnabled_def websocketExecutionLoggingIsEnabled_def)

section \<open>Facts about the validation of the logging configuration\<close>



















end
